theory Spec2Isabelle
  imports Main
begin

section \<open>Errors and the file system\<close>

text \<open>
  The exceptions that can leave the two modules of pytket-offline-renderer, as values.
  The payload is the exception's argument (a template name, a path, a message).
\<close>

datatype error =
    TemplateNotFound string
  | RenderingError string
  | ModuleNotFoundError string
  | FileExistsError string
  | FileNotFoundError string
  | PermissionError string
  | OSError string
  | DisplayError string

text \<open>
  The file system: absolute POSIX paths of regular files, each with its text content.
  \<open>os.path.isfile p\<close> is \<open>p \<in> dom fs\<close>.
\<close>

type_synonym fs = "string \<rightharpoonup> string"

definition isfile :: "fs \<Rightarrow> string \<Rightarrow> bool" where
  "isfile fs p = (fs p \<noteq> None)"

text \<open>
  \<open>posixpath.join a b\<close> for one component: an absolute \<open>b\<close> replaces \<open>a\<close>, an empty
  \<open>a\<close> or one ending in a slash takes \<open>b\<close> directly, otherwise a slash is put between.
\<close>

definition path_join :: "string \<Rightarrow> string \<Rightarrow> string" where
  "path_join a b =
     (if b \<noteq> [] \<and> hd b = CHR ''/'' then b
      else if a = [] \<or> last a = CHR ''/'' then a @ b
      else a @ ''/'' @ b)"

text \<open>\<open>posixpath.join a *ps\<close>: the components are joined from the left.\<close>

definition path_join_all :: "string \<Rightarrow> string list \<Rightarrow> string" where
  "path_join_all a ps = foldl path_join a ps"

section \<open>The jinja2 loaders used by the two modules\<close>

text \<open>
  Both modules build their \<open>loader\<close> from three loader classes of the jinja2 library,
  and from \<open>html_loader\<close> and \<open>js_loader\<close> of \<open>pytket.circuit.display\<close>. The classes are
  modelled by what their \<open>get_source\<close> does on a POSIX system; \<open>FunctionLoader\<close> is
  there so that the two imported loaders can be any lookup at all.
\<close>

datatype loader =
    FileSystemLoader "string list"
  | FunctionLoader "string \<Rightarrow> string option"
  | ChoiceLoader "loader list"
  | PrefixLoader "(string \<times> loader) list"

text \<open>
  What \<open>get_source\<close> returns on success: the template's text and the file it was read
  from (none for a \<open>FunctionLoader\<close>). The third component of jinja2's triple, the
  up-to-date callback, is left out.
\<close>

type_synonym source = "string \<times> string option"

text \<open>
  What a lookup touches, in order: each \<open>isfile\<close> test, each file read and each call
  of a load function.
\<close>

datatype access = IsFile string | ReadFile string | CallLoadFunc string

text \<open>\<open>str.split sep\<close> of Python, for a one-character separator.\<close>

primrec str_split :: "char \<Rightarrow> string \<Rightarrow> string list" where
  "str_split d [] = [[]]"
| "str_split d (c # cs) =
     (if c = d then [] # str_split d cs
      else (case str_split d cs of
              [] \<Rightarrow> [[c]]
            | p # ps \<Rightarrow> (c # p) # ps))"

text \<open>
  \<open>prefix, name = template.split(delimiter, 1)\<close>: the split at the first delimiter;
  \<open>None\<close> is the \<open>ValueError\<close> of unpacking a one-element list.
\<close>

primrec split_once :: "char \<Rightarrow> string \<Rightarrow> (string \<times> string) option" where
  "split_once d [] = None"
| "split_once d (c # cs) =
     (if c = d then Some ([], cs)
      else (case split_once d cs of
              None \<Rightarrow> None
            | Some (a, b) \<Rightarrow> Some (c # a, b)))"

text \<open>
  \<open>jinja2.loaders.split_template_path\<close>: the name is split at slashes; a piece \<open>..\<close>
  makes the lookup fail (\<open>None\<close> is \<open>TemplateNotFound\<close>), empty pieces and \<open>.\<close> are
  dropped. On POSIX a piece cannot hold the separator and there is no alternative
  separator.
\<close>

fun split_pieces :: "string list \<Rightarrow> string list option" where
  "split_pieces [] = Some []"
| "split_pieces (p # ps) =
     (if p = ''..'' then None
      else (case split_pieces ps of
              None \<Rightarrow> None
            | Some qs \<Rightarrow> if p \<noteq> [] \<and> p \<noteq> ''.'' then Some (p # qs) else Some qs))"

definition split_template_path :: "string \<Rightarrow> string list option" where
  "split_template_path template = split_pieces (str_split CHR ''/'' template)"

text \<open>
  The loop of \<open>FileSystemLoader.get_source\<close> over its search paths: the first path under
  which the file exists is read; when none has it, \<open>TemplateNotFound\<close>.
\<close>

fun fs_search :: "fs \<Rightarrow> string list \<Rightarrow> string list \<Rightarrow> string \<Rightarrow> (error + source) \<times> access list" where
  "fs_search fs [] pieces template = (Inl (TemplateNotFound template), [])"
| "fs_search fs (searchpath # rest) pieces template =
     (let filename = path_join_all searchpath pieces in
      case fs filename of
        Some contents \<Rightarrow> (Inr (contents, Some filename), [IsFile filename, ReadFile filename])
      | None \<Rightarrow>
          (case fs_search fs rest pieces template of
             (r, acc) \<Rightarrow> (r, IsFile filename # acc)))"

text \<open>What \<open>except TemplateNotFound\<close> catches.\<close>

fun not_found :: "error + 'a \<Rightarrow> bool" where
  "not_found (Inl (TemplateNotFound _)) = True"
| "not_found _ = False"

text \<open>
  \<open>get_source\<close> of the four classes.
  \<^item> \<open>ChoiceLoader\<close>: the loaders are tried in order; a \<open>TemplateNotFound\<close> moves on to
    the next one, anything else is the result.
  \<^item> \<open>PrefixLoader\<close>: the name is split at the first slash; a name with no slash and a
    prefix that is no key of the mapping are \<open>TemplateNotFound\<close> of the whole name; a
    \<open>TemplateNotFound\<close> of the chosen loader is raised again with the whole name.
\<close>

function get_source :: "fs \<Rightarrow> loader \<Rightarrow> string \<Rightarrow> (error + source) \<times> access list"
  and choice_get_source :: "fs \<Rightarrow> loader list \<Rightarrow> string \<Rightarrow> (error + source) \<times> access list"
where
  "get_source fs (FileSystemLoader searchpath) template =
     (case split_template_path template of
        None \<Rightarrow> (Inl (TemplateNotFound template), [])
      | Some pieces \<Rightarrow> fs_search fs searchpath pieces template)"
| "get_source fs (FunctionLoader load_func) template =
     (case load_func template of
        None \<Rightarrow> (Inl (TemplateNotFound template), [CallLoadFunc template])
      | Some contents \<Rightarrow> (Inr (contents, None), [CallLoadFunc template]))"
| "get_source fs (ChoiceLoader loaders) template = choice_get_source fs loaders template"
| "get_source fs (PrefixLoader mapping) template =
     (case split_once CHR ''/'' template of
        None \<Rightarrow> (Inl (TemplateNotFound template), [])
      | Some (prefix, name) \<Rightarrow>
          (case map_of mapping prefix of
             None \<Rightarrow> (Inl (TemplateNotFound template), [])
           | Some l \<Rightarrow>
               (case get_source fs l name of
                  (r, acc) \<Rightarrow>
                    if not_found r then (Inl (TemplateNotFound template), acc) else (r, acc))))"
| "choice_get_source fs [] template = (Inl (TemplateNotFound template), [])"
| "choice_get_source fs (l # ls) template =
     (case get_source fs l template of
        (r, acc) \<Rightarrow>
          if not_found r
          then (case choice_get_source fs ls template of (r', acc') \<Rightarrow> (r', acc @ acc'))
          else (r, acc))"
  by pat_completeness auto

termination
proof (relation "measure (\<lambda>x. case x of Inl (fs, l, t) \<Rightarrow> 2 * size l + 1
                                          | Inr (fs, ls, t) \<Rightarrow> 2 * size_list size ls)")
  fix fs :: fs and mapping :: "(string \<times> loader) list" and template pn :: string
    and prefix name l
  assume "map_of mapping prefix = Some l"
  then have "size l < Suc (size_list (size_prod (\<lambda>_. 0) size) mapping)"
    by (induction mapping) (auto split: if_splits)
  then show "(Inl (fs, l, name), Inl (fs, PrefixLoader mapping, template))
      \<in> measure (\<lambda>x. case x of Inl (fs, l, t) \<Rightarrow> 2 * size l + 1
                                | Inr (fs, ls, t) \<Rightarrow> 2 * size_list size ls)"
    by simp
qed auto

section \<open>The loader of the two modules\<close>

text \<open>
  \<open>pytket/extensions/offline_display/__init__.py\<close>, lines 77 to 89. The module's own
  directory \<open>dirname\<close> and the two loaders imported from \<open>pytket.circuit.display\<close> are
  parameters. The dictionary literal is the list of its items.
\<close>

definition loader :: "string \<Rightarrow> loader \<Rightarrow> loader \<Rightarrow> loader" where
  "loader dirname html_loader js_loader =
     PrefixLoader
       [(''html'', ChoiceLoader [FileSystemLoader [path_join dirname ''static''], html_loader]),
        (''js'', ChoiceLoader [FileSystemLoader [path_join dirname ''dist''], js_loader])]"

text \<open>\<open>pytket/circuit/offline_display/__init__.py\<close>, lines 30 to 42: the same expression.\<close>

definition circuit_loader :: "string \<Rightarrow> loader \<Rightarrow> loader \<Rightarrow> loader" where
  "circuit_loader dirname html_loader js_loader =
     PrefixLoader
       [(''html'', ChoiceLoader [FileSystemLoader [path_join dirname ''static''], html_loader]),
        (''js'', ChoiceLoader [FileSystemLoader [path_join dirname ''dist''], js_loader])]"

text \<open>The prefixes a loader defines: the keys of a \<open>PrefixLoader\<close>'s mapping.\<close>

fun prefixes :: "loader \<Rightarrow> string list" where
  "prefixes (PrefixLoader mapping) = map fst mapping"
| "prefixes _ = []"

section \<open>The offline renderer\<close>

text \<open>
  What \<open>render_circuit_as_html\<close> does to the world, in order: the temporary file is
  created, written and closed, the display request is sent, the call sleeps, the file is
  removed. Only the steps of \<open>render_circuit_as_html\<close> itself are recorded.
\<close>

datatype event =
    Create string
  | Write string string
  | Close string
  | Display string
  | Sleep nat
  | Remove string

record state =
  files :: fs
  clock :: nat
  trace :: "event list"

text \<open>
  Everything \<open>render_circuit_as_html\<close> calls and does not define:
  \<^item> \<open>base_render\<close> is \<open>CircuitRenderer.render_circuit_as_html\<close> of
    \<open>pytket.circuit.display\<close>, called through \<open>super()\<close>; it may read and change files
    and may raise;
  \<^item> \<open>ipython\<close> is \<open>None\<close> when \<open>IPython.display\<close> cannot be imported, and otherwise
    what \<open>display(HTML(text))\<close> does: it may raise and may change files;
  \<^item> \<open>cwd\<close> is \<open>os.getcwd()\<close>, and \<open>rand_names\<close> the random names that \<open>tempfile\<close>
    draws, in the order drawn;
  \<^item> \<open>create_error\<close>, \<open>write_error\<close> and \<open>close_error\<close> are the operating system's
    refusals of creating, writing and closing the temporary file;
  \<^item> \<open>sleep_env\<close> is what the rest of the system does to the files while the call
    sleeps, and \<open>remove_denied\<close> says that the operating system refuses the removal.
\<close>

record 'c deps =
  base_render :: "'c \<Rightarrow> bool \<Rightarrow> fs \<Rightarrow> (error + string) \<times> fs"
  ipython :: "(string \<Rightarrow> fs \<Rightarrow> error option \<times> fs) option"
  cwd :: string
  rand_names :: "string list"
  create_error :: "error option"
  write_error :: "error option"
  close_error :: "error option"
  sleep_env :: "fs \<Rightarrow> fs"
  remove_denied :: bool

definition log :: "event \<Rightarrow> state \<Rightarrow> state" where
  "log e s = s\<lparr>trace := trace s @ [e]\<rparr>"

text \<open>
  \<open>tempfile._mkstemp_inner\<close>: at most \<open>TMP_MAX\<close> random names are tried, each as
  \<open>prefix + name + suffix\<close> under the directory; the first one that does not exist yet
  is taken.
\<close>

definition TMP_MAX :: nat where
  "TMP_MAX = 10000"

fun mkstemp_inner :: "fs \<Rightarrow> string \<Rightarrow> string \<Rightarrow> string \<Rightarrow> string list \<Rightarrow> string option" where
  "mkstemp_inner fs dir pre suf [] = None"
| "mkstemp_inner fs dir pre suf (name # names) =
     (let file = path_join dir (pre @ name @ suf) in
      if isfile fs file then mkstemp_inner fs dir pre suf names else Some file)"

text \<open>
  \<open>tempfile.NamedTemporaryFile(mode="w", suffix=".html", delete=False, dir=os.getcwd())\<close>:
  a new empty file; the result is its path, \<open>fp.name\<close>.
\<close>

definition NamedTemporaryFile :: "'c deps \<Rightarrow> state \<Rightarrow> (error + string) \<times> state" where
  "NamedTemporaryFile d s =
     (case create_error d of
        Some e \<Rightarrow> (Inl e, s)
      | None \<Rightarrow>
          (case mkstemp_inner (files s) (cwd d) ''tmp'' ''.html'' (take TMP_MAX (rand_names d)) of
             None \<Rightarrow> (Inl (FileExistsError ''No usable temporary file name found''), s)
           | Some name \<Rightarrow> (Inr name, log (Create name) (s\<lparr>files := (files s)(name \<mapsto> [])\<rparr>))))"

text \<open>
  \<open>fp.write(html)\<close> puts the text into the file object's buffer, and \<open>fp.close()\<close>
  flushes the buffer to the file. After a refused write or close the model leaves the
  file as it was: what is on disk then is not determined by the source.
\<close>

definition fp_write :: "'c deps \<Rightarrow> string \<Rightarrow> string \<Rightarrow> string \<Rightarrow> state \<Rightarrow> (error + string) \<times> state" where
  "fp_write d name buffer text s =
     (case write_error d of
        Some e \<Rightarrow> (Inl e, s)
      | None \<Rightarrow> (Inr (buffer @ text), log (Write name text) s))"

definition fp_close :: "'c deps \<Rightarrow> string \<Rightarrow> string \<Rightarrow> state \<Rightarrow> error option \<times> state" where
  "fp_close d name buffer s =
     (case close_error d of
        Some e \<Rightarrow> (Some e, s)
      | None \<Rightarrow> (None, log (Close name) (s\<lparr>files := (files s)(name \<mapsto> buffer)\<rparr>)))"

text \<open>Lines 56 to 60: the temporary file is created, written and closed.\<close>

definition write_temp :: "'c deps \<Rightarrow> string \<Rightarrow> state \<Rightarrow> (error + string) \<times> state" where
  "write_temp d html s =
     (case NamedTemporaryFile d s of
        (Inl e, s1) \<Rightarrow> (Inl e, s1)
      | (Inr name, s1) \<Rightarrow>
          (case fp_write d name [] html s1 of
             (Inl e, s2) \<Rightarrow> (Inl e, s2)
           | (Inr buffer, s2) \<Rightarrow>
               (case fp_close d name buffer s2 of
                  (Some e, s3) \<Rightarrow> (Inl e, s3)
                | (None, s3) \<Rightarrow> (Inr name, s3))))"

text \<open>
  \<open>os.path.relpath(path)\<close> for a path below the start directory (the current
  directory): the rest of the path. Other paths are returned as they are; the
  temporary file is always below the current directory.
\<close>

definition relpath :: "string \<Rightarrow> string \<Rightarrow> string" where
  "relpath start path =
     (let pre = (if start = [] \<or> last start = CHR ''/'' then start else start @ ''/'') in
      if take (length pre) path = pre then drop (length pre) path else path)"

text \<open>The text handed to \<open>HTML\<close>, lines 63 to 67.\<close>

definition iframe :: "string \<Rightarrow> string" where
  \<open>iframe rel =
     ''<iframe src="./'' @ rel @ ''" width="100%" height="200px" ''
     @ ''style="border: none; outline: none; resize: vertical; overflow: auto">''
     @ ''</iframe>''\<close>

definition call_display :: "(string \<Rightarrow> fs \<Rightarrow> error option \<times> fs) \<Rightarrow> string \<Rightarrow> state \<Rightarrow> error option \<times> state" where
  "call_display display text s =
     (case display text (files s) of
        (r, fs') \<Rightarrow> (r, log (Display text) (s\<lparr>files := fs'\<rparr>)))"

definition time_sleep :: "'c deps \<Rightarrow> nat \<Rightarrow> state \<Rightarrow> state" where
  "time_sleep d n s = log (Sleep n) (s\<lparr>files := sleep_env d (files s), clock := clock s + n\<rparr>)"

text \<open>
  \<open>os.remove(path)\<close>: \<open>FileNotFoundError\<close> when the file is not there,
  \<open>PermissionError\<close> when the removal is refused.
\<close>

definition os_remove :: "'c deps \<Rightarrow> string \<Rightarrow> state \<Rightarrow> error option \<times> state" where
  "os_remove d path s =
     (if \<not> isfile (files s) path then (Some (FileNotFoundError path), log (Remove path) s)
      else if remove_denied d then (Some (PermissionError path), log (Remove path) s)
      else (None, log (Remove path) (s\<lparr>files := (files s)(path := None)\<rparr>)))"

text \<open>
  Lines 61 to 72, the \<open>try\<close> with its \<open>finally\<close>. The \<open>finally\<close> block runs after the
  display call whatever its outcome; an exception raised in the block replaces the
  pending \<open>return None\<close> or the pending exception of the display call.
\<close>

definition show_and_cleanup ::
  "'c deps \<Rightarrow> (string \<Rightarrow> fs \<Rightarrow> error option \<times> fs) \<Rightarrow> string \<Rightarrow> state \<Rightarrow> (error + string option) \<times> state" where
  "show_and_cleanup d display name s =
     (case call_display display (iframe (relpath (cwd d) name)) s of
        (shown, s1) \<Rightarrow>
          (case os_remove d name (time_sleep d 5 s1) of
             (Some e, s2) \<Rightarrow> (Inl e, s2)
           | (None, s2) \<Rightarrow>
               (case shown of
                  Some e \<Rightarrow> (Inl e, s2)
                | None \<Rightarrow> (Inr None, s2))))"

text \<open>
  \<open>OfflineRenderer.render_circuit_as_html\<close>, lines 36 to 73. The result is the raised
  exception, or the returned value: \<open>None\<close> or the HTML text.
\<close>

definition render_circuit_as_html ::
  "'c deps \<Rightarrow> 'c \<Rightarrow> bool \<Rightarrow> state \<Rightarrow> (error + string option) \<times> state" where
  "render_circuit_as_html d circuit jupyter s =
     (case base_render d circuit False (files s) of
        (Inl e, fs1) \<Rightarrow> (Inl e, s\<lparr>files := fs1\<rparr>)
      | (Inr html, fs1) \<Rightarrow>
          if jupyter then
            (case ipython d of
               None \<Rightarrow> (Inl (ModuleNotFoundError ''IPython''), s\<lparr>files := fs1\<rparr>)
             | Some display \<Rightarrow>
                 (case write_temp d html (s\<lparr>files := fs1\<rparr>) of
                    (Inl e, s1) \<Rightarrow> (Inl e, s1)
                  | (Inr name, s1) \<Rightarrow> show_and_cleanup d display name s1))
          else (Inr (Some html), s\<lparr>files := fs1\<rparr>))"

section \<open>Example inputs\<close>

text \<open>
  A package directory \<open>/pkg\<close> that overrides one HTML template, and the base library
  under \<open>/base\<close>.
\<close>

definition example_fs :: fs where
  "example_fs =
     [''/pkg/static/circuit.html'' \<mapsto> ''<div>offline</div>'',
      ''/base/static/circuit.html'' \<mapsto> ''<div>base</div>'',
      ''/base/static/head.html'' \<mapsto> ''<head></head>'',
      ''/base/js/main.js'' \<mapsto> ''render()'']"

definition example_html_loader :: loader where
  "example_html_loader = FileSystemLoader [''/base/static'']"

definition example_js_loader :: loader where
  "example_js_loader = FileSystemLoader [''/base/js'']"

text \<open>
  A notebook session in \<open>/work\<close>: rendering puts the gate names between two tags, the
  display call succeeds and changes nothing, the first random name is already taken.
  The variants below differ from it in one collaborator each: a renderer that raises,
  a display call that raises, a directory that is emptied while the call sleeps, and
  an environment without IPython.
\<close>

definition quiet_display :: "string \<Rightarrow> fs \<Rightarrow> error option \<times> fs" where
  "quiet_display text fs = (None, fs)"

definition broken_display :: "string \<Rightarrow> fs \<Rightarrow> error option \<times> fs" where
  "broken_display text fs = (Some (DisplayError ''no frontend''), fs)"

definition example_deps :: "string list deps" where
  "example_deps =
     \<lparr>base_render = (\<lambda>circuit jupyter fs. (Inr (''<div>'' @ concat circuit @ ''</div>''), fs)),
      ipython = Some quiet_display,
      cwd = ''/work'',
      rand_names = [''abcd1234'', ''efgh5678''],
      create_error = None,
      write_error = None,
      close_error = None,
      sleep_env = (\<lambda>fs. fs),
      remove_denied = False\<rparr>"

definition example_state :: state where
  "example_state = \<lparr>files = [''/work/tmpabcd1234.html'' \<mapsto> ''old''], clock = 0, trace = []\<rparr>"

definition failing_render_deps :: "string list deps" where
  "failing_render_deps =
     example_deps\<lparr>base_render := (\<lambda>circuit jupyter fs. (Inl (RenderingError ''bad circuit''), fs))\<rparr>"

definition failing_display_deps :: "string list deps" where
  "failing_display_deps =
     example_deps\<lparr>ipython := Some broken_display\<rparr>"

definition vanishing_file_deps :: "string list deps" where
  "vanishing_file_deps = example_deps\<lparr>sleep_env := (\<lambda>fs. Map.empty)\<rparr>"

definition vanishing_file_failing_display_deps :: "string list deps" where
  "vanishing_file_failing_display_deps = failing_display_deps\<lparr>sleep_env := (\<lambda>fs. Map.empty)\<rparr>"

definition no_ipython_deps :: "string list deps" where
  "no_ipython_deps = example_deps\<lparr>ipython := None\<rparr>"

section \<open>Properties of the loaders\<close>

lemma split_once_prefix:
  "d \<notin> set ns \<Longrightarrow> split_once d (ns @ d # name) = Some (ns, name)"
  by (induction ns) auto

lemma not_found_Inl: "not_found r \<longleftrightarrow> (\<exists>n. r = Inl (TemplateNotFound n))"
  by (cases r rule: not_found.cases) auto

lemma fs_search_error:
  "fst (fs_search fs sp pieces t) = Inl e \<Longrightarrow> e = TemplateNotFound t"
  by (induction sp) (auto simp: Let_def split: option.splits prod.splits)

lemma get_source_error_aux:
  "(\<forall>e. fst (get_source fs l t) = Inl e \<longrightarrow> e = TemplateNotFound t)"
  "(\<forall>e. fst (choice_get_source fs ls t) = Inl e \<longrightarrow> e = TemplateNotFound t)"
proof (induction fs l t and fs ls t rule: get_source_choice_get_source.induct)
  case (1 fs searchpath template)
  then show ?case by (auto split: option.splits dest: fs_search_error)
next
  case (2 fs load_func template)
  then show ?case by (auto split: option.splits)
next
  case (3 fs loaders template)
  then show ?case by simp
next
  case (4 fs mapping template)
  show ?case
  proof (cases "split_once CHR ''/'' template")
    case None
    then show ?thesis by simp
  next
    case (Some pn)
    obtain prefix name where pn: "pn = (prefix, name)" by (cases pn)
    show ?thesis
    proof (cases "map_of mapping prefix")
      case None
      with Some pn show ?thesis by simp
    next
      case (Some l)
      have ih: "\<forall>e. fst (get_source fs l name) = Inl e \<longrightarrow> e = TemplateNotFound name"
        using "4.IH"[OF \<open>split_once CHR ''/'' template = Some pn\<close> pn[symmetric] Some] .
      obtain r acc where g: "get_source fs l name = (r, acc)" by (cases "get_source fs l name")
      show ?thesis
        using ih g Some pn \<open>split_once CHR ''/'' template = Some pn\<close>
        by (cases r) (auto simp: not_found_Inl)
    qed
  qed
next
  case (5 fs template)
  then show ?case by simp
next
  case (6 fs l ls template)
  then show ?case by (auto simp: not_found_Inl split: option.splits prod.splits if_splits)
qed

lemma get_source_error:
  "fst (get_source fs l t) = Inl e \<Longrightarrow> e = TemplateNotFound t"
  using get_source_error_aux(1) by blast

lemma get_source_cases:
  obtains (missing) acc where "get_source fs l t = (Inl (TemplateNotFound t), acc)"
        | (found) src acc where "get_source fs l t = (Inr src, acc)"
proof (cases "get_source fs l t")
  case (Pair r acc)
  show ?thesis
  proof (cases r)
    case (Inl e)
    with Pair get_source_error[of fs l t e] missing show ?thesis by simp
  next
    case (Inr src)
    with Pair found show ?thesis by simp
  qed
qed

lemma choice_two_first:
  "fst (get_source fs a t) = Inr src \<Longrightarrow> get_source fs (ChoiceLoader [a, b]) t = get_source fs a t"
  by (cases "get_source fs a t") (auto)

lemma choice_two_second:
  "fst (get_source fs a t) = Inl e \<Longrightarrow>
   get_source fs (ChoiceLoader [a, b]) t =
     (fst (get_source fs b t), snd (get_source fs a t) @ snd (get_source fs b t))"
  by (cases fs a t rule: get_source_cases; cases fs b t rule: get_source_cases) auto

lemma loader_lookup:
  "(ns, sub, base) \<in> {(''html'', ''static'', h), (''js'', ''dist'', j)} \<Longrightarrow>
   get_source fs (loader dirname h j) (ns @ ''/'' @ name) =
     (case get_source fs (ChoiceLoader [FileSystemLoader [path_join dirname sub], base]) name of
        (r, acc) \<Rightarrow> if not_found r then (Inl (TemplateNotFound (ns @ ''/'' @ name)), acc) else (r, acc))"
  by (auto simp: loader_def split: prod.splits simp del: get_source.simps(1,3))

section \<open>Properties of the steps of the renderer\<close>

lemmas example_defs =
  quiet_display_def broken_display_def example_deps_def example_state_def failing_render_deps_def failing_display_deps_def
  vanishing_file_deps_def vanishing_file_failing_display_deps_def no_ipython_deps_def

lemmas step_defs =
  render_circuit_as_html_def write_temp_def NamedTemporaryFile_def fp_write_def fp_close_def
  show_and_cleanup_def call_display_def time_sleep_def os_remove_def log_def isfile_def
  path_join_def TMP_MAX_def

lemma mkstemp_inner_Some:
  "mkstemp_inner fs dir pre suf names = Some file \<Longrightarrow>
   fs file = None \<and> (\<exists>n \<in> set names. file = path_join dir (pre @ n @ suf))"
  by (induction names) (auto simp: Let_def isfile_def split: if_splits)

lemma write_temp_Inr:
  assumes "write_temp d html s = (Inr name, sw)"
  shows "files s name = None"
    and "files sw = (files s)(name \<mapsto> html)"
    and "trace sw = trace s @ [Create name, Write name html, Close name]"
    and "clock sw = clock s"
  using assms
  by (auto simp: write_temp_def NamedTemporaryFile_def fp_write_def fp_close_def log_def
      split: option.splits dest: mkstemp_inner_Some)

lemma show_and_cleanup_trace:
  assumes "show_and_cleanup d display name s = (res, s')"
  shows "trace s' = trace s @ [Display (iframe (relpath (cwd d) name)), Sleep 5, Remove name]"
    and "clock s' = clock s + 5"
  using assms
  by (auto simp: show_and_cleanup_def call_display_def time_sleep_def os_remove_def log_def
      split: prod.splits option.splits if_splits)

lemma show_and_cleanup_result:
  assumes "display (iframe (relpath (cwd d) name)) (files s) = (shown, fsb)"
  shows "fst (show_and_cleanup d display name s) =
           (if sleep_env d fsb name = None then Inl (FileNotFoundError name)
            else if remove_denied d then Inl (PermissionError name)
            else (case shown of None \<Rightarrow> Inr None | Some e \<Rightarrow> Inl e))"
    and "files (snd (show_and_cleanup d display name s)) =
           (if sleep_env d fsb name = None \<or> remove_denied d then sleep_env d fsb
            else (sleep_env d fsb)(name := None))"
  using assms
  by (auto simp: show_and_cleanup_def call_display_def time_sleep_def os_remove_def log_def
      isfile_def split: prod.splits option.splits if_splits)

lemma render_jupyter_unfold:
  assumes "base_render d circuit False (files s) = (Inr html, fsb)"
    and "ipython d = Some display"
    and "write_temp d html (s\<lparr>files := fsb\<rparr>) = (Inr name, sw)"
  shows "render_circuit_as_html d circuit True s = show_and_cleanup d display name sw"
  using assms by (simp add: render_circuit_as_html_def)

lemma render_Inr_jupyter:
  assumes "render_circuit_as_html d circuit True s = (Inr v, s')"
  obtains html fsb display name sw where
    "base_render d circuit False (files s) = (Inr html, fsb)"
    "ipython d = Some display"
    "write_temp d html (s\<lparr>files := fsb\<rparr>) = (Inr name, sw)"
    "show_and_cleanup d display name sw = (Inr v, s')"
  using assms
  by (auto simp: render_circuit_as_html_def split: prod.splits sum.splits option.splits)

text \<open>
  A refused write leaves the new file behind: the \<open>try\<close> begins only after the file is
  closed.
\<close>

lemma write_failure_leaves_file:
  assumes "write_error d = Some e" and "NamedTemporaryFile d s = (Inr name, s1)"
  shows "write_temp d html s = (Inl e, s1) \<and> files s1 name = Some []"
  using assms
  by (auto simp: write_temp_def fp_write_def NamedTemporaryFile_def log_def split: option.splits)

section \<open>Template lookup through the resolved loader\<close>

text \<open>
  In the theorems below \<open>(ns, sub, base)\<close> is one of the two namespaces of \<open>loader\<close>:
  its prefix, the package's override directory, and the imported base loader.
\<close>

text \<open>
  C2 (override precedence). When the override directory of a namespace has the name,
  the lookup of \<open>ns/name\<close> through \<open>loader\<close> is the lookup in the override directory:
  the same text from the same file, and the base loader is not even consulted. This
  holds whether or not the base loader has the name too.
\<close>

theorem override_precedence:
  assumes "(ns, sub, base) \<in> {(''html'', ''static'', html_loader), (''js'', ''dist'', js_loader)}"
    and "fst (get_source fs (FileSystemLoader [path_join dirname sub]) name) = Inr src"
  shows "get_source fs (loader dirname html_loader js_loader) (ns @ ''/'' @ name) =
           get_source fs (FileSystemLoader [path_join dirname sub]) name"
proof -
  let ?ov = "FileSystemLoader [path_join dirname sub]"
  have "get_source fs (ChoiceLoader [?ov, base]) name = get_source fs ?ov name"
    using assms(2) by (rule choice_two_first)
  moreover have "\<not> not_found (fst (get_source fs ?ov name))"
    using assms(2) by simp
  ultimately show ?thesis
    using loader_lookup[OF assms(1), of fs dirname name]
    by (simp add: case_prod_unfold del: get_source.simps)
qed

text \<open>
  At the example, \<open>circuit.html\<close> is in both tiers with different texts, and the
  override's text is returned.
\<close>

theorem override_precedence_witness:
  "fst (get_source example_fs (FileSystemLoader [path_join ''/pkg'' ''static'']) ''circuit.html'')
     = Inr (''<div>offline</div>'', Some ''/pkg/static/circuit.html'')
   \<and> fst (get_source example_fs example_html_loader ''circuit.html'')
     = Inr (''<div>base</div>'', Some ''/base/static/circuit.html'')
   \<and> get_source example_fs (loader ''/pkg'' example_html_loader example_js_loader) ''html/circuit.html''
     = (Inr (''<div>offline</div>'', Some ''/pkg/static/circuit.html''),
        [IsFile ''/pkg/static/circuit.html'', ReadFile ''/pkg/static/circuit.html''])"
  using override_precedence[of "''html''" "''static''" example_html_loader example_html_loader
      example_js_loader example_fs "''/pkg''" "''circuit.html''"
      "(''<div>offline</div>'', Some ''/pkg/static/circuit.html'')"]
  by (simp add: Let_def example_fs_def example_html_loader_def example_js_loader_def split_template_path_def path_join_def
      path_join_all_def)

text \<open>
  C3 (fallback correctness). When the override directory of a namespace does not have
  the name and the base loader has it, the lookup of \<open>ns/name\<close> through \<open>loader\<close>
  succeeds with the result of the direct lookup in the base loader, after the one
  failed lookup in the override directory.
\<close>

theorem fallback_correctness:
  assumes "(ns, sub, base) \<in> {(''html'', ''static'', html_loader), (''js'', ''dist'', js_loader)}"
    and "fst (get_source fs (FileSystemLoader [path_join dirname sub]) name) = Inl e"
    and "fst (get_source fs base name) = Inr src"
  shows "get_source fs (loader dirname html_loader js_loader) (ns @ ''/'' @ name) =
           (fst (get_source fs base name),
            snd (get_source fs (FileSystemLoader [path_join dirname sub]) name)
              @ snd (get_source fs base name))"
proof -
  let ?ov = "FileSystemLoader [path_join dirname sub]"
  have "get_source fs (ChoiceLoader [?ov, base]) name =
          (fst (get_source fs base name), snd (get_source fs ?ov name) @ snd (get_source fs base name))"
    using assms(2) by (rule choice_two_second)
  then show ?thesis
    using loader_lookup[OF assms(1), of fs dirname name] assms(3)
    by (simp del: get_source.simps)
qed

theorem fallback_correctness_witness:
  "fst (get_source example_fs (FileSystemLoader [path_join ''/pkg'' ''dist'']) ''main.js'')
     = Inl (TemplateNotFound ''main.js'')
   \<and> fst (get_source example_fs example_js_loader ''main.js'')
     = Inr (''render()'', Some ''/base/js/main.js'')
   \<and> get_source example_fs (loader ''/pkg'' example_html_loader example_js_loader) ''js/main.js''
     = (Inr (''render()'', Some ''/base/js/main.js''),
        [IsFile ''/pkg/dist/main.js'', IsFile ''/base/js/main.js'', ReadFile ''/base/js/main.js''])"
  using fallback_correctness[of "''js''" "''dist''" example_js_loader example_html_loader
      example_js_loader example_fs "''/pkg''" "''main.js''" "TemplateNotFound ''main.js''"
      "(''render()'', Some ''/base/js/main.js'')"]
  by (simp add: Let_def example_fs_def example_html_loader_def example_js_loader_def split_template_path_def path_join_def
      path_join_all_def)

text \<open>
  C4 (missing name). When neither the override directory nor the base loader has the
  name, the lookup of \<open>ns/name\<close> fails with \<open>TemplateNotFound\<close> of the whole name: the
  result holds no source at all. Each tier is consulted once, the override directory
  first, and nothing is tried again.
\<close>

theorem missing_name_failure:
  assumes "(ns, sub, base) \<in> {(''html'', ''static'', html_loader), (''js'', ''dist'', js_loader)}"
    and "fst (get_source fs (FileSystemLoader [path_join dirname sub]) name) = Inl e"
    and "fst (get_source fs base name) = Inl e'"
  shows "get_source fs (loader dirname html_loader js_loader) (ns @ ''/'' @ name) =
           (Inl (TemplateNotFound (ns @ ''/'' @ name)),
            snd (get_source fs (FileSystemLoader [path_join dirname sub]) name)
              @ snd (get_source fs base name))"
proof -
  let ?ov = "FileSystemLoader [path_join dirname sub]"
  have "get_source fs (ChoiceLoader [?ov, base]) name =
          (fst (get_source fs base name), snd (get_source fs ?ov name) @ snd (get_source fs base name))"
    using assms(2) by (rule choice_two_second)
  moreover have "not_found (fst (get_source fs base name))"
    using assms(3) get_source_error[OF assms(3)] by simp
  ultimately show ?thesis
    using loader_lookup[OF assms(1), of fs dirname name]
    by (simp del: get_source.simps)
qed

theorem missing_name_failure_witness:
  "fst (get_source example_fs (FileSystemLoader [path_join ''/pkg'' ''dist'']) ''none.js'')
     = Inl (TemplateNotFound ''none.js'')
   \<and> fst (get_source example_fs example_js_loader ''none.js'') = Inl (TemplateNotFound ''none.js'')
   \<and> get_source example_fs (loader ''/pkg'' example_html_loader example_js_loader) ''js/none.js''
     = (Inl (TemplateNotFound ''js/none.js''),
        [IsFile ''/pkg/dist/none.js'', IsFile ''/base/js/none.js''])"
  using missing_name_failure[of "''js''" "''dist''" example_js_loader example_html_loader
      example_js_loader example_fs "''/pkg''" "''none.js''" "TemplateNotFound ''none.js''"
      "TemplateNotFound ''none.js''"]
  by (simp add: Let_def example_fs_def example_html_loader_def example_js_loader_def split_template_path_def path_join_def
      path_join_all_def)

text \<open>
  C10 (two namespaces). The loaders of both modules define the prefixes \<open>html\<close> and
  \<open>js\<close> and no other. A lookup whose name has another prefix, or no prefix at all,
  fails with \<open>TemplateNotFound\<close> whatever the rest of the name is, and touches
  neither tier.
\<close>

theorem two_namespaces:
  "prefixes (loader dirname html_loader js_loader) = [''html'', ''js'']
   \<and> prefixes (circuit_loader dirname html_loader js_loader) = [''html'', ''js'']
   \<and> (map_option fst (split_once CHR ''/'' template) \<notin> {Some ''html'', Some ''js''} \<longrightarrow>
        get_source fs (loader dirname html_loader js_loader) template
          = (Inl (TemplateNotFound template), [])
        \<and> get_source fs (circuit_loader dirname html_loader js_loader) template
          = (Inl (TemplateNotFound template), []))"
  by (auto simp: loader_def circuit_loader_def split: option.splits)

theorem two_namespaces_witness:
  "map_option fst (split_once CHR ''/'' ''css/main.js'') \<notin> {Some ''html'', Some ''js''}
   \<and> get_source example_fs (loader ''/pkg'' example_html_loader example_js_loader) ''css/main.js''
        = (Inl (TemplateNotFound ''css/main.js''), [])
   \<and> get_source example_fs (circuit_loader ''/pkg'' example_html_loader example_js_loader) ''css/main.js''
        = (Inl (TemplateNotFound ''css/main.js''), [])"
  using two_namespaces[of "''/pkg''" example_html_loader example_js_loader "''css/main.js''" example_fs]
  by simp

section \<open>The jupyter path of the offline renderer\<close>

text \<open>
  C1 (cleanup on every path), as the specification states it: the delay and the
  deletion run whether the display call succeeds or an exception is raised while the
  HTML is generated, the file is written or the display call runs. The code does not
  do that when the HTML generation raises: the exception leaves the call at once,
  with no delay and no deletion.
\<close>

theorem cleanup_skipped_counterexample:
  "fst (render_circuit_as_html failing_render_deps [''H'', ''X''] True example_state)
     = Inl (RenderingError ''bad circuit'')
   \<and> trace (snd (render_circuit_as_html failing_render_deps [''H'', ''X''] True example_state)) = []
   \<and> clock (snd (render_circuit_as_html failing_render_deps [''H'', ''X''] True example_state))
     = clock example_state"
  by (simp add: example_defs render_circuit_as_html_def)

text \<open>
  C1 as the code has it. When the HTML generation raises, the exception propagates
  with nothing created, no delay and no deletion. Once the temporary file is written,
  the display request, the delay of 5 and the deletion attempt follow in this order
  whatever the display call does, and when the call ends the file is gone, unless the
  operating system refused the deletion, in which case that refusal is what is raised.
\<close>

theorem cleanup_after_display:
  "(base_render d circuit False (files s) = (Inl e, fsb) \<longrightarrow>
      render_circuit_as_html d circuit True s = (Inl e, s\<lparr>files := fsb\<rparr>))
   \<and> (base_render d circuit False (files s) = (Inr html, fsb)
        \<and> ipython d = Some display
        \<and> write_temp d html (s\<lparr>files := fsb\<rparr>) = (Inr name, sw)
        \<and> render_circuit_as_html d circuit True s = (res, s') \<longrightarrow>
      trace s' = trace sw @ [Display (iframe (relpath (cwd d) name)), Sleep 5, Remove name]
      \<and> clock s' = clock sw + 5
      \<and> (files s' name = None \<or> res = Inl (PermissionError name)))"
proof (intro conjI impI)
  assume "base_render d circuit False (files s) = (Inl e, fsb)"
  then show "render_circuit_as_html d circuit True s = (Inl e, s\<lparr>files := fsb\<rparr>)"
    by (simp add: render_circuit_as_html_def)
next
  assume a: "base_render d circuit False (files s) = (Inr html, fsb)
        \<and> ipython d = Some display
        \<and> write_temp d html (s\<lparr>files := fsb\<rparr>) = (Inr name, sw)
        \<and> render_circuit_as_html d circuit True s = (res, s')"
  then have sc: "show_and_cleanup d display name sw = (res, s')"
    using render_jupyter_unfold[of d circuit s html fsb display name sw] by simp
  show "trace s' = trace sw @ [Display (iframe (relpath (cwd d) name)), Sleep 5, Remove name]"
    using show_and_cleanup_trace(1)[OF sc] .
  show "clock s' = clock sw + 5"
    using show_and_cleanup_trace(2)[OF sc] .
  obtain shown fs2 where disp: "display (iframe (relpath (cwd d) name)) (files sw) = (shown, fs2)"
    by (cases "display (iframe (relpath (cwd d) name)) (files sw)")
  show "files s' name = None \<or> res = Inl (PermissionError name)"
    using show_and_cleanup_result[where display=display and d=d and name=name and s=sw, OF disp] sc
    by (auto split: if_splits)
qed

text \<open>
  At the example whose display call raises, the display's exception reaches the caller
  after the delay and the deletion.
\<close>

theorem cleanup_after_display_witness:
  "base_render failing_display_deps [''H'', ''X''] False (files example_state)
     = (Inr ''<div>HX</div>'', files example_state)
   \<and> ipython failing_display_deps = Some broken_display
   \<and> fst (write_temp failing_display_deps ''<div>HX</div>'' example_state)
     = Inr ''/work/tmpefgh5678.html''
   \<and> fst (render_circuit_as_html failing_display_deps [''H'', ''X''] True example_state)
     = Inl (DisplayError ''no frontend'')
   \<and> trace (snd (render_circuit_as_html failing_display_deps [''H'', ''X''] True example_state))
     = [Create ''/work/tmpefgh5678.html'',
        Write ''/work/tmpefgh5678.html'' ''<div>HX</div>'',
        Close ''/work/tmpefgh5678.html'',
        Display (iframe ''tmpefgh5678.html''), Sleep 5, Remove ''/work/tmpefgh5678.html'']
   \<and> clock (snd (render_circuit_as_html failing_display_deps [''H'', ''X''] True example_state)) = 5
   \<and> files (snd (render_circuit_as_html failing_display_deps [''H'', ''X''] True example_state))
         ''/work/tmpefgh5678.html'' = None
   \<and> base_render failing_render_deps [''H'', ''X''] False (files example_state)
     = (Inl (RenderingError ''bad circuit''), files example_state)
   \<and> render_circuit_as_html failing_render_deps [''H'', ''X''] True example_state
     = (Inl (RenderingError ''bad circuit''), example_state)"
proof -
  let ?d = failing_display_deps
  let ?c = "[''H'', ''X'']"
  let ?name = "''/work/tmpefgh5678.html''"
  let ?s1 = "snd (write_temp ?d ''<div>HX</div>'' example_state)"
  let ?out = "render_circuit_as_html ?d ?c True example_state"
  have b: "base_render ?d ?c False (files example_state) = (Inr ''<div>HX</div>'', files example_state)"
    by (simp add: example_defs)
  have i: "ipython ?d = Some broken_display"
    by (simp add: example_defs)
  have w1: "fst (write_temp ?d ''<div>HX</div>'' example_state) = Inr ?name"
    by (simp add: example_defs write_temp_def NamedTemporaryFile_def fp_write_def fp_close_def
        log_def isfile_def path_join_def TMP_MAX_def)
  have t1: "trace ?s1 = [Create ?name, Write ?name ''<div>HX</div>'', Close ?name]"
    by (simp add: example_defs write_temp_def NamedTemporaryFile_def fp_write_def fp_close_def
        log_def isfile_def path_join_def TMP_MAX_def)
  have c1: "clock ?s1 = 0"
    by (simp add: example_defs write_temp_def NamedTemporaryFile_def fp_write_def fp_close_def
        log_def isfile_def path_join_def TMP_MAX_def)
  have w: "write_temp ?d ''<div>HX</div>'' (example_state\<lparr>files := files example_state\<rparr>)
             = (Inr ?name, ?s1)"
    using w1 by (simp add: prod_eq_iff)
  have r: "fst ?out = Inl (DisplayError ''no frontend'')"
    by (simp add: example_defs step_defs)
  have rel: "relpath (cwd ?d) ?name = ''tmpefgh5678.html''"
    by (simp add: example_defs relpath_def)
  have b': "base_render failing_render_deps ?c False (files example_state)
              = (Inl (RenderingError ''bad circuit''), files example_state)"
    by (simp add: example_defs)
  have "trace (snd ?out) = trace ?s1 @ [Display (iframe (relpath (cwd ?d) ?name)), Sleep 5, Remove ?name]
        \<and> clock (snd ?out) = clock ?s1 + 5
        \<and> (files (snd ?out) ?name = None \<or> fst ?out = Inl (PermissionError ?name))"
    using cleanup_after_display[where d="?d" and circuit="?c" and s=example_state
        and fsb="files example_state" and html="''<div>HX</div>''" and name="?name" and sw="?s1"
        and res="fst ?out" and s'="snd ?out"] b i w
    by simp
  moreover have "render_circuit_as_html failing_render_deps ?c True example_state
        = (Inl (RenderingError ''bad circuit''), example_state)"
    using cleanup_after_display[where d=failing_render_deps and circuit="?c" and s=example_state
        and e="RenderingError ''bad circuit''" and fsb="files example_state"] b'
    by simp
  ultimately show ?thesis
    using b i w1 r t1 c1 rel b' by simp
qed

text \<open>
  C5 (return value). With \<open>jupyter\<close> unset the call is the base renderer's call: the
  same value or exception and the same files, with no step of its own. With \<open>jupyter\<close>
  set a call that returns returns \<open>None\<close>, and it does return when the base renderer,
  the import, the temporary file, the display call and the deletion all succeed.
\<close>

theorem render_return_value:
  "render_circuit_as_html d circuit False s =
     (case base_render d circuit False (files s) of
        (r, fsb) \<Rightarrow> (map_sum id Some r, s\<lparr>files := fsb\<rparr>))
   \<and> (render_circuit_as_html d circuit True s = (Inr v, s') \<longrightarrow> v = None)
   \<and> (base_render d circuit False (files s) = (Inr html, fsb)
        \<and> ipython d = Some display
        \<and> write_temp d html (s\<lparr>files := fsb\<rparr>) = (Inr name, sw)
        \<and> display (iframe (relpath (cwd d) name)) (files sw) = (None, fsd)
        \<and> sleep_env d fsd name \<noteq> None \<and> \<not> remove_denied d \<longrightarrow>
      fst (render_circuit_as_html d circuit True s) = Inr None)"
proof (intro conjI impI)
  show "render_circuit_as_html d circuit False s =
     (case base_render d circuit False (files s) of
        (r, fsb) \<Rightarrow> (map_sum id Some r, s\<lparr>files := fsb\<rparr>))"
    by (simp add: render_circuit_as_html_def split: prod.splits sum.splits)
next
  assume "render_circuit_as_html d circuit True s = (Inr v, s')"
  then obtain display name sw where "show_and_cleanup d display name sw = (Inr v, s')"
    by (rule render_Inr_jupyter)
  then show "v = None"
    by (auto simp: show_and_cleanup_def split: prod.splits option.splits)
next
  assume a: "base_render d circuit False (files s) = (Inr html, fsb)
        \<and> ipython d = Some display
        \<and> write_temp d html (s\<lparr>files := fsb\<rparr>) = (Inr name, sw)
        \<and> display (iframe (relpath (cwd d) name)) (files sw) = (None, fsd)
        \<and> sleep_env d fsd name \<noteq> None \<and> \<not> remove_denied d"
  then have "render_circuit_as_html d circuit True s = show_and_cleanup d display name sw"
    using render_jupyter_unfold[of d circuit s html fsb display name sw] by simp
  moreover have "fst (show_and_cleanup d display name sw) = Inr None"
    using a show_and_cleanup_result(1)[where display=display and d=d and name=name and s=sw
        and shown=None and fsb=fsd]
    by simp
  ultimately show "fst (render_circuit_as_html d circuit True s) = Inr None"
    by simp
qed

theorem render_return_value_witness:
  "render_circuit_as_html example_deps [''H'', ''X''] False example_state
     = (Inr (Some ''<div>HX</div>''), example_state)
   \<and> base_render example_deps [''H'', ''X''] False (files example_state)
     = (Inr ''<div>HX</div>'', files example_state)
   \<and> ipython example_deps = Some quiet_display
   \<and> fst (write_temp example_deps ''<div>HX</div>'' example_state) = Inr ''/work/tmpefgh5678.html''
   \<and> sleep_env example_deps (files (snd (write_temp example_deps ''<div>HX</div>'' example_state)))
         ''/work/tmpefgh5678.html'' = Some ''<div>HX</div>''
   \<and> \<not> remove_denied example_deps
   \<and> fst (render_circuit_as_html example_deps [''H'', ''X''] True example_state) = Inr None"
proof -
  let ?d = example_deps
  let ?c = "[''H'', ''X'']"
  let ?name = "''/work/tmpefgh5678.html''"
  let ?sw = "snd (write_temp ?d ''<div>HX</div>'' example_state)"
  let ?out = "render_circuit_as_html ?d ?c True example_state"
  note inst = render_return_value[where d="?d" and circuit="?c" and s=example_state
      and v="None" and s'="snd ?out" and html="''<div>HX</div>''" and fsb="files example_state"
      and display=quiet_display and name="?name" and sw="?sw" and fsd="files ?sw"]
  have b: "base_render ?d ?c False (files example_state) = (Inr ''<div>HX</div>'', files example_state)"
    by (simp add: example_defs)
  have i: "ipython ?d = Some quiet_display"
    by (simp add: example_defs)
  have w1: "fst (write_temp ?d ''<div>HX</div>'' example_state) = Inr ?name"
    by (simp add: example_defs write_temp_def NamedTemporaryFile_def fp_write_def fp_close_def
        log_def isfile_def path_join_def TMP_MAX_def)
  have w: "write_temp ?d ''<div>HX</div>'' (example_state\<lparr>files := files example_state\<rparr>)
             = (Inr ?name, ?sw)"
    using w1 by (simp add: prod_eq_iff)
  have f: "sleep_env ?d (files ?sw) ?name = Some ''<div>HX</div>''"
    by (simp add: example_defs write_temp_def NamedTemporaryFile_def fp_write_def fp_close_def
        log_def isfile_def path_join_def TMP_MAX_def)
  have n: "\<not> remove_denied ?d"
    by (simp add: example_defs)
  have r: "fst ?out = Inr None"
    using inst b i w f n by (simp add: quiet_display_def)
  have "?out = (Inr None, snd ?out)"
    using r by (simp add: prod_eq_iff)
  have e: "render_circuit_as_html ?d ?c False example_state = (Inr (Some ''<div>HX</div>''), example_state)"
    using inst b by simp
  show ?thesis
    using b i w1 f n r e by simp
qed

text \<open>
  C6 (life of the temporary file). A call with \<open>jupyter\<close> set that returns has created
  exactly one file, under a name that did not exist before; when the display request is
  sent the file holds the HTML that the base renderer produced with inline mode off;
  and the file does not exist when the call has returned.
\<close>

theorem temp_file_lifecycle:
  assumes "render_circuit_as_html d circuit True s = (Inr v, s')"
  shows "\<exists>html fsb name sw.
           base_render d circuit False (files s) = (Inr html, fsb)
           \<and> write_temp d html (s\<lparr>files := fsb\<rparr>) = (Inr name, sw)
           \<and> fsb name = None
           \<and> files sw = fsb(name \<mapsto> html)
           \<and> trace s' = trace s @ [Create name, Write name html, Close name,
                                    Display (iframe (relpath (cwd d) name)), Sleep 5, Remove name]
           \<and> files s' name = None"
proof -
  from assms obtain html fsb display name sw where
    b: "base_render d circuit False (files s) = (Inr html, fsb)" and
    w: "write_temp d html (s\<lparr>files := fsb\<rparr>) = (Inr name, sw)" and
    sc: "show_and_cleanup d display name sw = (Inr v, s')"
    by (rule render_Inr_jupyter)
  have "fsb name = None" "files sw = fsb(name \<mapsto> html)"
    and tw: "trace sw = trace s @ [Create name, Write name html, Close name]"
    using write_temp_Inr[OF w] by simp_all
  moreover have "trace s' = trace sw @ [Display (iframe (relpath (cwd d) name)), Sleep 5, Remove name]"
    using show_and_cleanup_trace(1)[OF sc] .
  moreover have "files s' name = None"
    using sc
    by (auto simp: show_and_cleanup_def call_display_def time_sleep_def os_remove_def log_def
        isfile_def split: prod.splits option.splits if_splits)
  ultimately show ?thesis
    using b w by simp
qed

theorem temp_file_lifecycle_witness:
  "fst (render_circuit_as_html example_deps [''H'', ''X'', ''CX''] True example_state) = Inr None
   \<and> (\<exists>html fsb name sw.
         base_render example_deps [''H'', ''X'', ''CX''] False (files example_state) = (Inr html, fsb)
         \<and> write_temp example_deps html (example_state\<lparr>files := fsb\<rparr>) = (Inr name, sw)
         \<and> fsb name = None
         \<and> files sw = fsb(name \<mapsto> html)
         \<and> trace (snd (render_circuit_as_html example_deps [''H'', ''X'', ''CX''] True example_state))
             = trace example_state @ [Create name, Write name html, Close name,
                 Display (iframe (relpath (cwd example_deps) name)), Sleep 5, Remove name]
         \<and> files (snd (render_circuit_as_html example_deps [''H'', ''X'', ''CX''] True example_state))
             name = None)
   \<and> trace (snd (render_circuit_as_html example_deps [''H'', ''X'', ''CX''] True example_state))
       = [Create ''/work/tmpefgh5678.html'',
          Write ''/work/tmpefgh5678.html'' ''<div>HXCX</div>'',
          Close ''/work/tmpefgh5678.html'',
          Display (iframe ''tmpefgh5678.html''), Sleep 5, Remove ''/work/tmpefgh5678.html'']"
proof -
  let ?out = "render_circuit_as_html example_deps [''H'', ''X'', ''CX''] True example_state"
  have r: "fst ?out = Inr None"
    by (simp add: example_defs step_defs)
  then have "?out = (Inr None, snd ?out)"
    by (simp add: prod_eq_iff)
  from temp_file_lifecycle[OF this]
  have ex: "\<exists>html fsb name sw.
         base_render example_deps [''H'', ''X'', ''CX''] False (files example_state) = (Inr html, fsb)
         \<and> write_temp example_deps html (example_state\<lparr>files := fsb\<rparr>) = (Inr name, sw)
         \<and> fsb name = None
         \<and> files sw = fsb(name \<mapsto> html)
         \<and> trace (snd ?out)
             = trace example_state @ [Create name, Write name html, Close name,
                 Display (iframe (relpath (cwd example_deps) name)), Sleep 5, Remove name]
         \<and> files (snd ?out) name = None" .
  have t: "trace (snd ?out)
       = [Create ''/work/tmpefgh5678.html'',
          Write ''/work/tmpefgh5678.html'' ''<div>HXCX</div>'',
          Close ''/work/tmpefgh5678.html'',
          Display (iframe ''tmpefgh5678.html''), Sleep 5, Remove ''/work/tmpefgh5678.html'']"
    by (simp add: example_defs step_defs relpath_def)
  show ?thesis
    using r ex t by blast
qed

text \<open>
  C7 (a failed deletion), as the specification states it: a failure of the deletion
  neither masks a display error nor reaches the caller after a successful display.
  In the code the deletion stands in the \<open>finally\<close> block with no handler around it:
  when the file has disappeared during the delay, \<open>FileNotFoundError\<close> is raised after
  a successful display, and in place of the display's own exception.
\<close>

theorem deletion_failure_counterexample:
  "ipython vanishing_file_deps = Some quiet_display
   \<and> fst (quiet_display (iframe ''tmpefgh5678.html'') (files example_state)) = None
   \<and> fst (render_circuit_as_html vanishing_file_deps [''H'', ''X''] True example_state)
     = Inl (FileNotFoundError ''/work/tmpefgh5678.html'')
   \<and> ipython vanishing_file_failing_display_deps
     = Some broken_display
   \<and> fst (render_circuit_as_html vanishing_file_failing_display_deps [''H'', ''X''] True example_state)
     = Inl (FileNotFoundError ''/work/tmpefgh5678.html'')"
  by (simp add: example_defs step_defs)

text \<open>
  C7 as the code has it. A rendering error is never masked: no deletion is attempted
  after it. Once the temporary file is written, a failed deletion (the file is gone,
  or the removal is refused) is what the caller gets, in place of a display error and
  after a successful display alike; when the deletion succeeds, the outcome is the
  display's own: its exception, or \<open>None\<close>.
\<close>

theorem deletion_outcome:
  "(base_render d circuit False (files s) = (Inl e, fsb) \<longrightarrow>
      fst (render_circuit_as_html d circuit True s) = Inl e)
   \<and> (base_render d circuit False (files s) = (Inr html, fsb)
        \<and> ipython d = Some display
        \<and> write_temp d html (s\<lparr>files := fsb\<rparr>) = (Inr name, sw)
        \<and> display (iframe (relpath (cwd d) name)) (files sw) = (shown, fsd) \<longrightarrow>
      fst (render_circuit_as_html d circuit True s) =
        (if sleep_env d fsd name = None then Inl (FileNotFoundError name)
         else if remove_denied d then Inl (PermissionError name)
         else (case shown of None \<Rightarrow> Inr None | Some e' \<Rightarrow> Inl e')))"
proof (intro conjI impI)
  assume "base_render d circuit False (files s) = (Inl e, fsb)"
  then show "fst (render_circuit_as_html d circuit True s) = Inl e"
    by (simp add: render_circuit_as_html_def)
next
  assume a: "base_render d circuit False (files s) = (Inr html, fsb)
        \<and> ipython d = Some display
        \<and> write_temp d html (s\<lparr>files := fsb\<rparr>) = (Inr name, sw)
        \<and> display (iframe (relpath (cwd d) name)) (files sw) = (shown, fsd)"
  then have "render_circuit_as_html d circuit True s = show_and_cleanup d display name sw"
    using render_jupyter_unfold[of d circuit s html fsb display name sw] by simp
  then show "fst (render_circuit_as_html d circuit True s) =
        (if sleep_env d fsd name = None then Inl (FileNotFoundError name)
         else if remove_denied d then Inl (PermissionError name)
         else (case shown of None \<Rightarrow> Inr None | Some e' \<Rightarrow> Inl e'))"
    using a show_and_cleanup_result(1)[where display=display and d=d and name=name and s=sw
        and shown=shown and fsb=fsd]
    by simp
qed

theorem deletion_outcome_witness:
  "base_render failing_render_deps [''X''] False (files example_state)
     = (Inl (RenderingError ''bad circuit''), files example_state)
   \<and> fst (render_circuit_as_html failing_render_deps [''X''] True example_state)
     = Inl (RenderingError ''bad circuit'')
   \<and> base_render vanishing_file_failing_display_deps [''X''] False (files example_state)
     = (Inr ''<div>X</div>'', files example_state)
   \<and> ipython vanishing_file_failing_display_deps
     = Some broken_display
   \<and> fst (write_temp vanishing_file_failing_display_deps ''<div>X</div>'' example_state)
     = Inr ''/work/tmpefgh5678.html''
   \<and> sleep_env vanishing_file_failing_display_deps
        (files (snd (write_temp vanishing_file_failing_display_deps ''<div>X</div>'' example_state)))
        ''/work/tmpefgh5678.html'' = None
   \<and> fst (render_circuit_as_html vanishing_file_failing_display_deps [''X''] True example_state)
     = Inl (FileNotFoundError ''/work/tmpefgh5678.html'')"
proof -
  let ?d = vanishing_file_failing_display_deps
  let ?c = "[''X'']"
  let ?name = "''/work/tmpefgh5678.html''"
  let ?sw = "snd (write_temp ?d ''<div>X</div>'' example_state)"
  have b: "base_render ?d ?c False (files example_state) = (Inr ''<div>X</div>'', files example_state)"
    by (simp add: example_defs)
  have i: "ipython ?d = Some broken_display"
    by (simp add: example_defs)
  have w1: "fst (write_temp ?d ''<div>X</div>'' example_state) = Inr ?name"
    by (simp add: example_defs write_temp_def NamedTemporaryFile_def fp_write_def fp_close_def
        log_def isfile_def path_join_def TMP_MAX_def)
  have w: "write_temp ?d ''<div>X</div>'' (example_state\<lparr>files := files example_state\<rparr>)
             = (Inr ?name, ?sw)"
    using w1 by (simp add: prod_eq_iff)
  have f: "sleep_env ?d (files ?sw) ?name = None"
    by (simp add: example_defs)
  have r: "fst (render_circuit_as_html ?d ?c True example_state) = Inl (FileNotFoundError ?name)"
    using deletion_outcome[where d="?d" and circuit="?c" and s=example_state
        and html="''<div>X</div>''" and fsb="files example_state"
        and display=broken_display and name="?name"
        and sw="?sw" and shown="Some (DisplayError ''no frontend'')" and fsd="files ?sw"]
      b i w f
    by (simp add: broken_display_def)
  have b': "base_render failing_render_deps ?c False (files example_state)
              = (Inl (RenderingError ''bad circuit''), files example_state)"
    by (simp add: example_defs)
  have r': "fst (render_circuit_as_html failing_render_deps ?c True example_state)
              = Inl (RenderingError ''bad circuit'')"
    using deletion_outcome[where d=failing_render_deps and circuit="?c" and s=example_state
        and e="RenderingError ''bad circuit''" and fsb="files example_state"] b'
    by simp
  show ?thesis
    using b i w1 f r b' r' by simp
qed

text \<open>
  C9 (deferred import). With \<open>jupyter\<close> unset the call does not depend on whether
  \<open>IPython.display\<close> can be imported. With \<open>jupyter\<close> set and no IPython, the import
  statement's \<open>ModuleNotFoundError\<close> reaches the caller untrapped, before any file is
  created (the HTML has been generated first, so a rendering error comes before it).
\<close>

theorem deferred_import:
  "render_circuit_as_html (d\<lparr>ipython := x\<rparr>) circuit False s
     = render_circuit_as_html d circuit False s
   \<and> (ipython d = None \<and> base_render d circuit False (files s) = (Inr html, fsb) \<longrightarrow>
        render_circuit_as_html d circuit True s
          = (Inl (ModuleNotFoundError ''IPython''), s\<lparr>files := fsb\<rparr>))"
  by (simp add: render_circuit_as_html_def split: prod.splits sum.splits)

theorem deferred_import_witness:
  "render_circuit_as_html no_ipython_deps [''H''] False example_state
     = (Inr (Some ''<div>H</div>''), example_state)
   \<and> render_circuit_as_html no_ipython_deps [''H''] False example_state
     = render_circuit_as_html example_deps [''H''] False example_state
   \<and> ipython no_ipython_deps = None
   \<and> base_render no_ipython_deps [''H''] False (files example_state)
     = (Inr ''<div>H</div>'', files example_state)
   \<and> render_circuit_as_html no_ipython_deps [''H''] True example_state
     = (Inl (ModuleNotFoundError ''IPython''), example_state)"
proof -
  have i: "ipython no_ipython_deps = None"
    by (simp add: example_defs)
  have b: "base_render no_ipython_deps [''H''] False (files example_state)
             = (Inr ''<div>H</div>'', files example_state)"
    by (simp add: example_defs)
  note inst = deferred_import[where d=example_deps and x=None and circuit="[''H'']"
      and s=example_state]
    deferred_import[where d=no_ipython_deps and circuit="[''H'']" and s=example_state
      and html="''<div>H</div>''" and fsb="files example_state"]
  have e: "render_circuit_as_html no_ipython_deps [''H''] False example_state
             = render_circuit_as_html example_deps [''H''] False example_state"
    using inst(1) by (simp add: no_ipython_deps_def)
  have v: "render_circuit_as_html example_deps [''H''] False example_state
             = (Inr (Some ''<div>H</div>''), example_state)"
    by (simp add: example_defs render_circuit_as_html_def)
  have r: "render_circuit_as_html no_ipython_deps [''H''] True example_state
             = (Inl (ModuleNotFoundError ''IPython''), example_state)"
    using inst(2) i b by simp
  show ?thesis
    using i b e v r by simp
qed

end
